theory Spec2Isabelle
  imports Main "HOL-Library.Char_ord" "HOL-Library.List_Lexorder"
begin

section \<open>Errors and results\<close>

text \<open>
  Go functions of the upgrade tool return an \<open>error\<close> value (or a value and an error),
  and a nil dereference or a write to a nil map aborts the program with a panic. Errors are
  kept structurally: \<open>Errorf\<close> and \<open>Wrapf\<close> hold the format string and its arguments
  (no rendering of \<open>%q\<close> is needed), \<open>External\<close> is any error of an external
  collaborator that is neither not-found nor already-exists.
\<close>

datatype error =
    NotFound
  | AlreadyExists
  | ErrWaitTimeout
  | External string
  | Errorf string "string list"
  | Wrapf error string "string list"
  | WithStack error

datatype 'a result = Ok 'a | Err error | Panic

section \<open>Semantic versions (github.com/blang/semver)\<close>

text \<open>
  \<open>PRVersion\<close> is the pre-release component: numeric (\<open>IsNum\<close>, \<open>VersionNum\<close>) or
  alphanumeric (\<open>VersionStr\<close>). \<open>Major\<close>, \<open>Minor\<close> and \<open>Patch\<close> are \<open>uint64\<close>; the
  code only compares them, and subtracts one from a minor version in
  \<open>updateKubeletConfigMapIfNeeded\<close>, where the wrap-around is written out.
\<close>

datatype PRVersion = PRNum nat | PRStr string

record Version =
  Major :: nat
  Minor :: nat
  Patch :: nat
  Pre :: "PRVersion list"
  Build :: "string list"

fun prCompare :: "PRVersion \<Rightarrow> PRVersion \<Rightarrow> int" where
  "prCompare (PRNum a) (PRStr b) = -1"
| "prCompare (PRStr a) (PRNum b) = 1"
| "prCompare (PRNum a) (PRNum b) = (if a = b then 0 else if a > b then 1 else -1)"
| "prCompare (PRStr a) (PRStr b) = (if a = b then 0 else if a > b then 1 else -1)"

text \<open>The loop of \<open>Version.Compare\<close> over the two pre-release lists, with its tail.\<close>

fun preCompare :: "PRVersion list \<Rightarrow> PRVersion list \<Rightarrow> int" where
  "preCompare [] [] = 0"
| "preCompare [] (y # ys) = -1"
| "preCompare (x # xs) [] = 1"
| "preCompare (x # xs) (y # ys) =
     (if prCompare x y = 0 then preCompare xs ys
      else if prCompare x y = 1 then 1 else -1)"

definition Compare :: "Version \<Rightarrow> Version \<Rightarrow> int" where
  "Compare v w =
     (if Major v \<noteq> Major w then (if Major v > Major w then 1 else -1)
      else if Minor v \<noteq> Minor w then (if Minor v > Minor w then 1 else -1)
      else if Patch v \<noteq> Patch w then (if Patch v > Patch w then 1 else -1)
      else if Pre v = [] \<and> Pre w = [] then 0
      else if Pre v = [] \<and> Pre w \<noteq> [] then 1
      else if Pre v \<noteq> [] \<and> Pre w = [] then -1
      else preCompare (Pre v) (Pre w))"

definition EQ :: "Version \<Rightarrow> Version \<Rightarrow> bool" where
  "EQ v w = (Compare v w = 0)"

definition LT :: "Version \<Rightarrow> Version \<Rightarrow> bool" where
  "LT v w = (Compare v w = -1)"

definition GT :: "Version \<Rightarrow> Version \<Rightarrow> bool" where
  "GT v w = (Compare v w = 1)"

text \<open>
  The declaration of \<open>unsetVersion\<close> is not among the sources. It is compared with
  \<open>var min, max semver.Version\<close> and with the user's version when none was given, so it
  is the zero value of \<open>semver.Version\<close>, as those variables are.
\<close>

definition unsetVersion :: Version where
  "unsetVersion = \<lparr>Major = 0, Minor = 0, Patch = 0, Pre = [], Build = []\<rparr>"

definition isMinorVersionUpgrade :: "Version \<Rightarrow> Version \<Rightarrow> bool" where
  "isMinorVersionUpgrade base update =
     (Major base = Major update \<and> Minor base < Minor update)"

section \<open>Strings and numbers as the code prints them\<close>

text \<open>\<open>strings.Split(s, "-")\<close> for a one-byte separator: the empty string gives one empty part.\<close>

fun splitOn :: "char \<Rightarrow> string \<Rightarrow> string list" where
  "splitOn c [] = [[]]"
| "splitOn c (x # xs) =
     (if x = c then [] # splitOn c xs
      else (case splitOn c xs of [] \<Rightarrow> [[x]] | r # rs \<Rightarrow> (x # r) # rs))"

fun joinWith :: "string \<Rightarrow> string list \<Rightarrow> string" where
  "joinWith sep [] = []"
| "joinWith sep [x] = x"
| "joinWith sep (x # y # ys) = x @ sep @ joinWith sep (y # ys)"

definition digitChar :: "nat \<Rightarrow> char" where
  "digitChar d = (''0123456789abcdef'' ! d)"

text \<open>\<open>strconv.FormatUint(n, base)\<close> for base 10 and base 16 (fuel: a 64-bit number has at most 20 digits).\<close>

fun formatUintFuel :: "nat \<Rightarrow> nat \<Rightarrow> nat \<Rightarrow> string" where
  "formatUintFuel 0 b n = [digitChar (n mod b)]"
| "formatUintFuel (Suc k) b n =
     (if n < b then [digitChar n] else formatUintFuel k b (n div b) @ [digitChar (n mod b)])"

definition decimal :: "nat \<Rightarrow> string" where
  "decimal n = formatUintFuel 64 10 n"

definition hexadecimal :: "nat \<Rightarrow> string" where
  "hexadecimal n = formatUintFuel 64 16 n"

definition formatInt :: "int \<Rightarrow> string" where
  "formatInt i = (if i < 0 then ''-'' @ decimal (nat (- i)) else decimal (nat i))"

definition prString :: "PRVersion \<Rightarrow> string" where
  "prString p = (case p of PRNum n \<Rightarrow> decimal n | PRStr s \<Rightarrow> s)"

definition versionString :: "Version \<Rightarrow> string" where
  "versionString v =
     decimal (Major v) @ ''.'' @ decimal (Minor v) @ ''.'' @ decimal (Patch v)
     @ (if Pre v \<noteq> [] then ''-'' @ joinWith ''.'' (map prString (Pre v)) else [])
     @ (if Build v \<noteq> [] then ''+'' @ joinWith ''.'' (Build v) else [])"

section \<open>The objects of the cluster API\<close>

text \<open>
  Each record keeps the fields the upgrade tool reads or writes. A Go pointer that may be
  nil is an \<open>option\<close>, and so is a map that may be nil (\<open>Annotations\<close>, \<open>Data\<close>):
  reading a nil map gives the zero value, writing to it panics.
\<close>

datatype json =
    JNull
  | JBool bool
  | JNumber string
  | JString string
  | JArray "json list"
  | JObject "(string \<times> json) list"

record ObjectReference =
  ref_Kind :: string
  ref_Namespace :: string
  ref_Name :: string
  ref_UID :: string
  ref_APIVersion :: string
  ref_ResourceVersion :: string
  ref_FieldPath :: string

record MachineSpec =
  spec_Version :: "string option"
  spec_ProviderID :: "string option"
  spec_InfrastructureRef :: ObjectReference
  spec_BootstrapConfigRef :: "ObjectReference option"

record Machine =
  m_Name :: string
  m_Namespace :: string
  m_ResourceVersion :: string
  m_Annotations :: "(string \<rightharpoonup> string) option"
  m_Spec :: MachineSpec

record MachineDeployment =
  md_Name :: string
  md_Namespace :: string
  md_TemplateAnnotations :: "(string \<rightharpoonup> string) option"
  md_TemplateSpec :: MachineSpec

text \<open>
  An \<open>unstructured.Unstructured\<close> object: its metadata fields that the code sets, the
  value under the key \<open>spec\<close> (if any), and the rest of its content.
\<close>

record Unstructured =
  u_Kind :: string
  u_APIVersion :: string
  u_Namespace :: string
  u_Name :: string
  u_ResourceVersion :: string
  u_OwnerReferences :: "json list"
  u_Spec :: "json option"
  u_Rest :: "(string \<times> json) list"

record ConfigMap =
  cm_Name :: string
  cm_Namespace :: string
  cm_ResourceVersion :: string
  cm_Data :: "(string \<rightharpoonup> string) option"

record PolicyRule =
  rule_Verbs :: "string list"
  rule_APIGroups :: "string list"
  rule_Resources :: "string list"
  rule_ResourceNames :: "string list"

record Role =
  role_Namespace :: string
  role_Name :: string
  role_Rules :: "PolicyRule list"

record Subject =
  subj_APIGroup :: string
  subj_Kind :: string
  subj_Name :: string

record RoleRef =
  rr_APIGroup :: string
  rr_Kind :: string
  rr_Name :: string

record RoleBinding =
  rb_Namespace :: string
  rb_Name :: string
  rb_Subjects :: "Subject list"
  rb_RoleRef :: RoleRef

text \<open>A pod's conditions are (type, status) pairs; a node's addresses are (type, address) pairs.\<close>

record Pod =
  pod_Name :: string
  pod_Namespace :: string
  pod_NodeName :: string
  pod_PodIP :: string
  pod_Conditions :: "(string \<times> string) list"

record Node =
  node_Name :: string
  node_ProviderID :: string
  node_Addresses :: "(string \<times> string) list"

record etcdMember =
  em_ID :: nat
  em_Name :: string
  em_ClientURLs :: "string list"

record PodExecInput =
  pei_Namespace :: string
  pei_Name :: string
  pei_Command :: "string list"

text \<open>\<open>noderefutil.ProviderID\<close> of cluster-api, with its accessors.\<close>

record ProviderID =
  pid_original :: string
  pid_cloudProvider :: string
  pid_id :: string

definition pidString :: "ProviderID \<Rightarrow> string" where
  "pidString p = pid_cloudProvider p @ ''://'' @ pid_id p"

definition pidEquals :: "ProviderID \<Rightarrow> ProviderID \<Rightarrow> bool" where
  "pidEquals p q = (pid_cloudProvider p = pid_cloudProvider q \<and> pid_id p = pid_id q)"

type_synonym Duration = int

definition Second :: Duration where
  "Second = 1000000000"

definition Minute :: Duration where
  "Minute = 60 * Second"

section \<open>The external collaborators\<close>

text \<open>
  Everything the tool calls outside its own code is a field of the environment, over an
  abstract world \<open>'w\<close>: the controller-runtime client of the management cluster, the
  client-go client of the target cluster, the remote exec channel, the clock, the number of
  evaluations a poll gets before its deadline (\<open>pollTicks interval timeout\<close>, after the
  immediate first one), and the parsers and codecs of the libraries. A call returns its Go
  result (a value or an error) and the world after it.

  \<open>UpdateProviderIDsToNodes\<close>, \<open>GetNodeFromProviderID\<close> (methods of \<open>base\<close>) and
  \<open>updateMachineSpecImage\<close> are code of the repository whose source is not among the
  files; they are taken as parameters here, the map of \<open>base\<close> being part of the world.
\<close>

record 'w env =
  ctrlListMachines :: "string \<Rightarrow> string \<Rightarrow> 'w \<Rightarrow> (error + Machine list) \<times> 'w"
  ctrlListMachineDeployments :: "string \<Rightarrow> string \<Rightarrow> 'w \<Rightarrow> (error + MachineDeployment list) \<times> 'w"
  externalGet :: "ObjectReference \<Rightarrow> string \<Rightarrow> 'w \<Rightarrow> (error + Unstructured) \<times> 'w"
  ctrlCreateObject :: "Unstructured \<Rightarrow> 'w \<Rightarrow> error option \<times> 'w"
  ctrlCreateMachine :: "Machine \<Rightarrow> 'w \<Rightarrow> (error + Machine) \<times> 'w"
  ctrlGetMachine :: "string \<Rightarrow> string \<Rightarrow> 'w \<Rightarrow> (error + Machine) \<times> 'w"
  ctrlDeleteMachine :: "Machine \<Rightarrow> 'w \<Rightarrow> error option \<times> 'w"
  ctrlPatchMachine :: "Machine \<Rightarrow> Machine \<Rightarrow> 'w \<Rightarrow> error option \<times> 'w"
  ctrlPatchMachineDeployment :: "MachineDeployment \<Rightarrow> MachineDeployment \<Rightarrow> 'w \<Rightarrow> error option \<times> 'w"
  getConfigMap :: "string \<Rightarrow> 'w \<Rightarrow> (error + ConfigMap) \<times> 'w"
  createConfigMap :: "ConfigMap \<Rightarrow> 'w \<Rightarrow> error option \<times> 'w"
  updateConfigMap :: "ConfigMap \<Rightarrow> 'w \<Rightarrow> error option \<times> 'w"
  getRole :: "string \<Rightarrow> 'w \<Rightarrow> (error + Role) \<times> 'w"
  createRole :: "Role \<Rightarrow> 'w \<Rightarrow> error option \<times> 'w"
  getRoleBinding :: "string \<Rightarrow> 'w \<Rightarrow> (error + RoleBinding) \<times> 'w"
  createRoleBinding :: "RoleBinding \<Rightarrow> 'w \<Rightarrow> error option \<times> 'w"
  listPods :: "string \<Rightarrow> 'w \<Rightarrow> (error + Pod list) \<times> 'w"
  getPod :: "string \<Rightarrow> 'w \<Rightarrow> (error + Pod) \<times> 'w"
  listNodes :: "'w \<Rightarrow> (error + Node list) \<times> 'w"
  podExec :: "PodExecInput \<Rightarrow> 'w \<Rightarrow> (string \<times> string \<times> error option) \<times> 'w"
  nowUnix :: "'w \<Rightarrow> int \<times> 'w"
  pollTicks :: "Duration \<Rightarrow> Duration \<Rightarrow> nat"
  UpdateProviderIDsToNodes :: "'w \<Rightarrow> error option \<times> 'w"
  GetNodeFromProviderID :: "string \<Rightarrow> 'w \<Rightarrow> Node option"
  updateMachineSpecImage :: "MachineSpec \<Rightarrow> string \<Rightarrow> string \<Rightarrow> error + MachineSpec"
  ParseTolerant :: "string \<Rightarrow> error + Version"
  NewProviderID :: "string \<Rightarrow> error + ProviderID"
  yamlUnmarshal :: "string \<Rightarrow> error + (string \<rightharpoonup> json) option"
  yamlMarshal :: "(string \<rightharpoonup> json) \<Rightarrow> error + string"
  jsonUnmarshalMembers :: "string \<Rightarrow> error + etcdMember list"

text \<open>
  Every external call is recorded, in order, with what was sent; a pod lookup also with
  what came back.
\<close>

datatype event =
    EvListMachines
  | EvListMachineDeployments
  | EvExternalGet ObjectReference
  | EvCreateObject Unstructured
  | EvCreateMachine Machine
  | EvGetMachine string string
  | EvDeleteMachine Machine
  | EvPatchMachine Machine Machine
  | EvPatchMachineDeployment MachineDeployment MachineDeployment
  | EvGetConfigMap string
  | EvCreateConfigMap ConfigMap
  | EvUpdateConfigMap ConfigMap
  | EvGetRole string
  | EvCreateRole Role
  | EvGetRoleBinding string
  | EvCreateRoleBinding RoleBinding
  | EvListPods string
  | EvGetPod string "error + Pod"
  | EvListNodes
  | EvPodExec PodExecInput
  | EvNow
  | EvUpdateProviderIDsToNodes

text \<open>
  The fields of \<open>base\<close> that stay fixed during a run (from the tool's \<open>Config\<close>), and
  the state a run threads: the world, the calls made so far, and the two fields of the
  upgrader that the run assigns (\<open>desiredVersion\<close>, \<open>oldNodeToEtcdMember\<close>).
\<close>

record base =
  userVersion :: Version
  upgradeID :: string
  imageID :: string
  imageField :: string
  clusterName :: string
  clusterNamespace :: string

record 'w state =
  world :: 'w
  trace :: "event list"
  desiredVersion :: Version
  oldNodeToEtcdMember :: "string \<rightharpoonup> string"

definition call :: "event \<Rightarrow> ('w \<Rightarrow> 'r \<times> 'w) \<Rightarrow> 'w state \<Rightarrow> 'r \<times> 'w state" where
  "call ev f st =
     (case f (world st) of (r, w') \<Rightarrow> (r, st\<lparr>world := w', trace := trace st @ [ev]\<rparr>))"

definition callR :: "('r \<Rightarrow> event) \<Rightarrow> ('w \<Rightarrow> 'r \<times> 'w) \<Rightarrow> 'w state \<Rightarrow> 'r \<times> 'w state" where
  "callR ev f st =
     (case f (world st) of (r, w') \<Rightarrow> (r, st\<lparr>world := w', trace := trace st @ [ev r]\<rparr>))"

text \<open>\<open>if err != nil { return err }\<close>: an error or a panic ends the function, a value goes on.\<close>

definition andThen :: "'a result \<times> 's \<Rightarrow> ('a \<Rightarrow> 's \<Rightarrow> 'b result \<times> 's) \<Rightarrow> 'b result \<times> 's" where
  "andThen m f =
     (case m of (Ok x, s) \<Rightarrow> f x s | (Err e, s) \<Rightarrow> (Err e, s) | (Panic, s) \<Rightarrow> (Panic, s))"

text \<open>
  \<open>wait.PollImmediate\<close>: the condition is evaluated at once and then once per tick; it
  ends the poll with its error, or with success; when the evaluations the deadline allows
  are used up the poll returns \<open>ErrWaitTimeout\<close>. A condition that succeeds hands over
  the value its closure assigned.
\<close>

fun pollLoop :: "nat \<Rightarrow> ('s \<Rightarrow> (error + 'a option) \<times> 's) \<Rightarrow> 's \<Rightarrow> (error + 'a) \<times> 's" where
  "pollLoop 0 cond s = (Inl ErrWaitTimeout, s)"
| "pollLoop (Suc n) cond s =
     (case cond s of
        (Inl e, s1) \<Rightarrow> (Inl e, s1)
      | (Inr (Some x), s1) \<Rightarrow> (Inr x, s1)
      | (Inr None, s1) \<Rightarrow> pollLoop n cond s1)"

definition PollImmediate ::
  "'w env \<Rightarrow> Duration \<Rightarrow> Duration \<Rightarrow> ('s \<Rightarrow> (error + 'a option) \<times> 's) \<Rightarrow> 's \<Rightarrow> (error + 'a) \<times> 's" where
  "PollImmediate env interval timeout cond s =
     pollLoop (Suc (pollTicks env interval timeout)) cond s"

section \<open>The machine creator (machine\_creator.go)\<close>

text \<open>
  The flags, options and timeouts of \<open>MachineCreator\<close>; its clients and its logger are
  the environment. A timeout is used only as the deadline of a poll.
\<close>

record MachineCreator =
  shouldWaitForProviderID :: bool
  shouldWaitForMatchingNode :: bool
  shouldWaitForNodeReady :: bool
  mo_ImageID :: string
  mo_ImageField :: string
  mo_DesiredVersion :: Version
  providerIDTimeout :: Duration
  matchingNodeTimeout :: Duration
  nodeReadyTimeout :: Duration

definition NewMachineCreator :: "(MachineCreator \<Rightarrow> MachineCreator) list \<Rightarrow> MachineCreator" where
  "NewMachineCreator options =
     fold (\<lambda>fn creator. fn creator) options
       \<lparr>shouldWaitForProviderID = True,
        shouldWaitForMatchingNode = True,
        shouldWaitForNodeReady = True,
        mo_ImageID = [], mo_ImageField = [], mo_DesiredVersion = unsetVersion,
        providerIDTimeout = 15 * Minute,
        matchingNodeTimeout = 10 * Minute,
        nodeReadyTimeout = 15 * Minute\<rparr>"

definition ShouldWaitForProviderID :: "bool \<Rightarrow> MachineCreator \<Rightarrow> MachineCreator" where
  "ShouldWaitForProviderID should n = n\<lparr>shouldWaitForProviderID := should\<rparr>"

definition ShouldWaitForMatchingNode :: "bool \<Rightarrow> MachineCreator \<Rightarrow> MachineCreator" where
  "ShouldWaitForMatchingNode should n = n\<lparr>shouldWaitForMatchingNode := should\<rparr>"

definition ShouldWaitForNodeReady :: "bool \<Rightarrow> MachineCreator \<Rightarrow> MachineCreator" where
  "ShouldWaitForNodeReady should n = n\<lparr>shouldWaitForNodeReady := should\<rparr>"

text \<open>\<open>MachineOptions\<close> is the triple image id, image field, desired version.\<close>

definition WithMachineOptions :: "string \<times> string \<times> Version \<Rightarrow> MachineCreator \<Rightarrow> MachineCreator" where
  "WithMachineOptions mo n =
     (case mo of (iid, ifield, dv) \<Rightarrow>
        n\<lparr>mo_ImageID := iid, mo_ImageField := ifield, mo_DesiredVersion := dv\<rparr>)"

text \<open>
  \<open>hostnameForNode\<close> reads \<open>node.Status.Addresses\<close> through its pointer: on a nil node
  that is a nil dereference.
\<close>

definition hostnameForNode :: "Node option \<Rightarrow> string result" where
  "hostnameForNode node =
     (case node of
        None \<Rightarrow> Panic
      | Some n \<Rightarrow>
          (case find (\<lambda>address. fst address = ''Hostname'') (node_Addresses n) of
             Some address \<Rightarrow> Ok (snd address)
           | None \<Rightarrow> Ok []))"

definition components :: "string list" where
  "components = [''etcd'', ''kube-apiserver'', ''kube-scheduler'', ''kube-controller-manager'']"

definition requiredConditions :: "string list" where
  "requiredConditions = [''PodScheduled'', ''Initialized'', ''Ready'', ''ContainersReady'']"

text \<open>The body of the loop of \<open>isReady\<close> for the components still to check.\<close>

fun isReadyLoop :: "'w env \<Rightarrow> string \<Rightarrow> string list \<Rightarrow> 'w state \<Rightarrow> bool \<times> 'w state" where
  "isReadyLoop env nodeHostname [] st = (True, st)"
| "isReadyLoop env nodeHostname (component # rest) st =
     (let podName = component @ ''-'' @ nodeHostname in
      case callR (EvGetPod podName) (getPod env podName) st of
        (Inl err, st1) \<Rightarrow> (if err = NotFound then (False, st1) else (False, st1))
      | (Inr pod, st1) \<Rightarrow>
          (let foundConditions = map fst (filter (\<lambda>condition. snd condition = ''True'') (pod_Conditions pod));
               missingConditions = filter (\<lambda>c. c \<notin> set foundConditions) requiredConditions
           in if length missingConditions > 0 then (False, st1)
              else isReadyLoop env nodeHostname rest st1))"

definition isReady :: "'w env \<Rightarrow> string \<Rightarrow> 'w state \<Rightarrow> bool \<times> 'w state" where
  "isReady env nodeHostname st = isReadyLoop env nodeHostname components st"

definition waitForNodeReady ::
  "'w env \<Rightarrow> Node \<Rightarrow> Duration \<Rightarrow> 'w state \<Rightarrow> unit result \<times> 'w state" where
  "waitForNodeReady env newNode timeout st =
     (case hostnameForNode (Some newNode) of
        Panic \<Rightarrow> (Panic, st)
      | Err e \<Rightarrow> (Err e, st)
      | Ok nodeHostname \<Rightarrow>
          if nodeHostname = [] then
            (Err (Errorf ''unable to find hostname for node %s'' [node_Name newNode]), st)
          else
            (case PollImmediate env (15 * Second) timeout
                    (\<lambda>s. case isReady env nodeHostname s of
                            (ready, s1) \<Rightarrow> (Inr (if ready then Some () else None), s1)) st of
               (Inl err, st1) \<Rightarrow>
                 (Err (Wrapf err ''components on node %s are not ready'' [node_Name newNode]), st1)
             | (Inr u, st1) \<Rightarrow> (Ok (), st1)))"

definition waitForProviderID ::
  "'w env \<Rightarrow> string \<Rightarrow> string \<Rightarrow> Duration \<Rightarrow> 'w state \<Rightarrow> string result \<times> 'w state" where
  "waitForProviderID env ns name timeout st =
     (case PollImmediate env (5 * Second) timeout
             (\<lambda>s. case call (EvGetMachine ns name) (ctrlGetMachine env ns name) s of
                     (Inl err, s1) \<Rightarrow> (Inl (WithStack err), s1)
                   | (Inr machine, s1) \<Rightarrow>
                       (case spec_ProviderID (m_Spec machine) of
                          None \<Rightarrow> (Inr None, s1)
                        | Some providerID \<Rightarrow>
                            if providerID \<noteq> [] then (Inr (Some providerID), s1)
                            else (Inr None, s1))) st of
        (Inl err, st1) \<Rightarrow> (Err (Wrapf err ''timed out waiting for machine provider id'' []), st1)
      | (Inr providerID, st1) \<Rightarrow> (Ok providerID, st1))"

text \<open>The scan of one node list in \<open>waitForMatchingNode\<close>.\<close>

fun matchNode :: "'w env \<Rightarrow> ProviderID \<Rightarrow> Node list \<Rightarrow> error + Node option" where
  "matchNode env providerID [] = Inr None"
| "matchNode env providerID (node # rest) =
     (case NewProviderID env (node_ProviderID node) of
        Inl err \<Rightarrow> Inl err
      | Inr nodeID \<Rightarrow>
          if pidEquals providerID nodeID then Inr (Some node)
          else matchNode env providerID rest)"

definition waitForMatchingNode ::
  "'w env \<Rightarrow> string \<Rightarrow> Duration \<Rightarrow> 'w state \<Rightarrow> Node result \<times> 'w state" where
  "waitForMatchingNode env rawProviderID timeout st =
     (case NewProviderID env rawProviderID of
        Inl err \<Rightarrow> (Err err, st)
      | Inr providerID \<Rightarrow>
          (case PollImmediate env (5 * Second) timeout
                  (\<lambda>s. case call EvListNodes (listNodes env) s of
                          (Inl err, s1) \<Rightarrow> (Inl err, s1)
                        | (Inr nodes, s1) \<Rightarrow> (matchNode env providerID nodes, s1)) st of
             (Inl err, st1) \<Rightarrow> (Err (Wrapf err ''timed out waiting for matching node'' []), st1)
           | (Inr matchingNode, st1) \<Rightarrow> (Ok matchingNode, st1)))"

text \<open>
  \<open>NewMachine\<close>. \<open>Create\<close> fills the object it is given with the server's answer, so the
  machine returned is the one the call handed back. The parameter \<open>namespace\<close> is not
  used by the body.
\<close>

definition NewMachine ::
  "'w env \<Rightarrow> MachineCreator \<Rightarrow> string \<Rightarrow> string \<Rightarrow> Machine \<Rightarrow> 'w state
     \<Rightarrow> (Machine \<times> Node option) result \<times> 'w state" where
  "NewMachine env n namespace name source st =
     (let newMachine0 = source\<lparr>m_ResourceVersion := [],
                               m_Spec := (m_Spec source)\<lparr>spec_ProviderID := None\<rparr>,
                               m_Name := name\<rparr>
      in case (if mo_ImageField n \<noteq> [] \<and> mo_ImageID n \<noteq> []
               then updateMachineSpecImage env (m_Spec newMachine0) (mo_ImageField n) (mo_ImageID n)
               else Inr (m_Spec newMachine0)) of
           Inl err \<Rightarrow> (Err err, st)
         | Inr spec1 \<Rightarrow>
            (let newMachine1 = newMachine0
                   \<lparr>m_Spec := spec1\<lparr>spec_Version := Some (versionString (mo_DesiredVersion n))\<rparr>\<rparr>
             in case call (EvCreateMachine newMachine1) (ctrlCreateMachine env newMachine1) st of
                  (Inl err, st1) \<Rightarrow>
                    (Err (Wrapf err ''Error creating machine: %s'' [m_Name newMachine1]), st1)
                | (Inr newMachine, st1) \<Rightarrow>
                    if shouldWaitForProviderID n then
                      andThen (waitForProviderID env (m_Namespace newMachine) (m_Name newMachine)
                                 (providerIDTimeout n) st1)
                        (\<lambda>providerID st2.
                           if shouldWaitForMatchingNode n then
                             andThen (waitForMatchingNode env providerID (matchingNodeTimeout n) st2)
                               (\<lambda>node st3.
                                  if shouldWaitForNodeReady n then
                                    andThen (waitForNodeReady env node (nodeReadyTimeout n) st3)
                                      (\<lambda>u st4. (Ok (newMachine, Some node), st4))
                                  else (Ok (newMachine, Some node), st3))
                           else (Ok (newMachine, None), st2))
                    else (Ok (newMachine, None), st1)))"

section \<open>The control-plane upgrader (control\_plane.go)\<close>

definition etcdCACertFile :: string where
  "etcdCACertFile = ''/etc/kubernetes/pki/etcd/ca.crt''"

definition etcdCertFile :: string where
  "etcdCertFile = ''/etc/kubernetes/pki/etcd/peer.crt''"

definition etcdKeyFile :: string where
  "etcdKeyFile = ''/etc/kubernetes/pki/etcd/peer.key''"

definition UpgradeIDAnnotationKey :: string where
  "UpgradeIDAnnotationKey = ''upgrade-id''"

text \<open>\<open>val, ok := annotations[key]\<close> on a map that may be nil.\<close>

definition mapIndex :: "(string \<rightharpoonup> string) option \<Rightarrow> string \<Rightarrow> string option" where
  "mapIndex m k = (case m of None \<Rightarrow> None | Some f \<Rightarrow> f k)"

definition listMachines :: "'w env \<Rightarrow> base \<Rightarrow> 'w state \<Rightarrow> Machine list result \<times> 'w state" where
  "listMachines env u st =
     (case call EvListMachines (ctrlListMachines env (clusterName u) (clusterNamespace u)) st of
        (Inl err, st1) \<Rightarrow> (Err (Wrapf err ''error listing machines'' []), st1)
      | (Inr machines, st1) \<Rightarrow> (Ok machines, st1))"

text \<open>
  The loop of \<open>minMaxControlPlaneVersions\<close>, from the current \<open>min\<close> and \<open>max\<close>.
  \<open>*machine.Spec.Version\<close> dereferences a pointer that may be nil.
\<close>

fun minMaxLoop ::
  "'w env \<Rightarrow> Machine list \<Rightarrow> Version \<Rightarrow> Version \<Rightarrow> (Version \<times> Version) result" where
  "minMaxLoop env [] mn mx = Ok (mn, mx)"
| "minMaxLoop env (machine # rest) mn mx =
     (case spec_Version (m_Spec machine) of
        None \<Rightarrow> Panic
      | Some version \<Rightarrow>
          if version \<noteq> [] then
            (case ParseTolerant env version of
               Inl err \<Rightarrow>
                 Err (Wrapf err ''invalid control plane version %q for machine %s/%s''
                        [version, m_Namespace machine, m_Name machine])
             | Inr machineVersion \<Rightarrow>
                 minMaxLoop env rest
                   (if EQ mn unsetVersion \<or> LT machineVersion mn then machineVersion else mn)
                   (if EQ mx unsetVersion \<or> GT machineVersion mx then machineVersion else mx))
          else minMaxLoop env rest mn mx)"

text \<open>\<open>var min, max semver.Version\<close> start as the zero value.\<close>

definition minMaxControlPlaneVersions ::
  "'w env \<Rightarrow> Machine list \<Rightarrow> (Version \<times> Version) result" where
  "minMaxControlPlaneVersions env machines =
     minMaxLoop env machines
       \<lparr>Major = 0, Minor = 0, Patch = 0, Pre = [], Build = []\<rparr>
       \<lparr>Major = 0, Minor = 0, Patch = 0, Pre = [], Build = []\<rparr>"

text \<open>
  The typed client returns an empty object together with an error; after an error other
  than not-found on the second \<open>Get\<close> the code goes on with that empty object.
\<close>

definition emptyConfigMap :: ConfigMap where
  "emptyConfigMap = \<lparr>cm_Name = [], cm_Namespace = [], cm_ResourceVersion = [], cm_Data = None\<rparr>"

definition updateKubeletConfigMapIfNeeded ::
  "'w env \<Rightarrow> Version \<Rightarrow> 'w state \<Rightarrow> unit result \<times> 'w state" where
  "updateKubeletConfigMapIfNeeded env version st =
     (let desiredKubeletConfigMapName =
            ''kubelet-config-'' @ decimal (Major version) @ ''.'' @ decimal (Minor version)
      in case call (EvGetConfigMap desiredKubeletConfigMapName)
                (getConfigMap env desiredKubeletConfigMapName) st of
           (Inr found, st1) \<Rightarrow> (Ok (), st1)
         | (Inl err, st1) \<Rightarrow>
             if err \<noteq> NotFound then
               (Err (Wrapf err ''error determining if configmap %s exists''
                       [desiredKubeletConfigMapName]), st1)
             else
               (let previousMinorVersionKubeletConfigMapName =
                      ''kubelet-config-'' @ decimal (Major version) @ ''.''
                        @ decimal ((Minor version + 2 ^ 64 - 1) mod 2 ^ 64)
                in case call (EvGetConfigMap previousMinorVersionKubeletConfigMapName)
                          (getConfigMap env previousMinorVersionKubeletConfigMapName) st1 of
                     (got, st2) \<Rightarrow>
                       if got = Inl NotFound then
                         (Err (Errorf ''unable to find current kubelet configmap %s''
                                 [previousMinorVersionKubeletConfigMapName]), st2)
                       else
                         (let cm0 = (case got of Inr c \<Rightarrow> c | Inl e \<Rightarrow> emptyConfigMap);
                              cm = cm0\<lparr>cm_Name := desiredKubeletConfigMapName,
                                        cm_ResourceVersion := []\<rparr>
                          in case call (EvCreateConfigMap cm) (createConfigMap env cm) st2 of
                               (Some err2, st3) \<Rightarrow>
                                 if err2 \<noteq> AlreadyExists then
                                   (Err (Wrapf err2 ''error creating configmap %s''
                                           [desiredKubeletConfigMapName]), st3)
                                 else (Ok (), st3)
                             | (None, st3) \<Rightarrow> (Ok (), st3))))"

definition updateKubeletRbacIfNeeded ::
  "'w env \<Rightarrow> Version \<Rightarrow> 'w state \<Rightarrow> unit result \<times> 'w state" where
  "updateKubeletRbacIfNeeded env version st =
     (let majorMinor = decimal (Major version) @ ''.'' @ decimal (Minor version);
          roleName = ''kubeadm:kubelet-config-'' @ majorMinor;
          newRole = \<lparr>role_Namespace = ''kube-system'', role_Name = roleName,
                     role_Rules = [\<lparr>rule_Verbs = [''get''], rule_APIGroups = [[]],
                                    rule_Resources = [''configmaps''],
                                    rule_ResourceNames = [''kubelet-config-'' @ majorMinor]\<rparr>]\<rparr>;
          newRoleBinding =
            \<lparr>rb_Namespace = ''kube-system'', rb_Name = roleName,
             rb_Subjects =
               [\<lparr>subj_APIGroup = ''rbac.authorization.k8s.io'', subj_Kind = ''Group'',
                 subj_Name = ''system:nodes''\<rparr>,
                \<lparr>subj_APIGroup = ''rbac.authorization.k8s.io'', subj_Kind = ''Group'',
                 subj_Name = ''system:bootstrappers:kubeadm:default-node-token''\<rparr>],
             rb_RoleRef = \<lparr>rr_APIGroup = ''rbac.authorization.k8s.io'', rr_Kind = ''Role'',
                           rr_Name = roleName\<rparr>\<rparr>
      in andThen
           (case call (EvGetRole roleName) (getRole env roleName) st of
              (Inr found, st1) \<Rightarrow> (Ok (), st1)
            | (Inl err, st1) \<Rightarrow>
                if err = NotFound then
                  (case call (EvCreateRole newRole) (createRole env newRole) st1 of
                     (Some err2, st2) \<Rightarrow>
                       if err2 \<noteq> AlreadyExists then
                         (Err (Wrapf err2 ''error creating role %s'' [roleName]), st2)
                       else (Ok (), st2)
                   | (None, st2) \<Rightarrow> (Ok (), st2))
                else (Err (Wrapf err ''error determining if role %s exists'' [roleName]), st1))
           (\<lambda>u st2.
              case call (EvGetRoleBinding roleName) (getRoleBinding env roleName) st2 of
                (Inr found, st3) \<Rightarrow> (Ok (), st3)
              | (Inl err, st3) \<Rightarrow>
                  if err = NotFound then
                    (case call (EvCreateRoleBinding newRoleBinding)
                            (createRoleBinding env newRoleBinding) st3 of
                       (Some err2, st4) \<Rightarrow>
                         if err2 \<noteq> AlreadyExists then
                           (Err (Wrapf err2 ''error creating rolebinding %s'' [roleName]), st4)
                         else (Ok (), st4)
                     | (None, st4) \<Rightarrow> (Ok (), st4))
                  else
                    (Err (Wrapf err ''error determining if rolebinding %s exists'' [roleName]),
                     st3)))"

definition listEtcdPods :: "'w env \<Rightarrow> 'w state \<Rightarrow> Pod list result \<times> 'w state" where
  "listEtcdPods env st =
     (case call (EvListPods ''component=etcd'') (listPods env ''component=etcd'') st of
        (Inl err, st1) \<Rightarrow> (Err (Wrapf err ''error listing pods'' []), st1)
      | (Inr pods, st1) \<Rightarrow> (Ok pods, st1))"

text \<open>
  The callers of \<open>etcdctl\<close> and \<open>etcdctlForPod\<close> read the output only when the error is
  nil, so a result is either the pair of outputs or the error.
\<close>

definition etcdctlForPod ::
  "'w env \<Rightarrow> Pod \<Rightarrow> string list \<Rightarrow> 'w state \<Rightarrow> (string \<times> string) result \<times> 'w state" where
  "etcdctlForPod env pod args st =
     (let endpoint = ''https://'' @ pod_PodIP pod @ '':2379'';
          fullArgs = [''ETCDCTL_API=3'', ''etcdctl'',
                      ''--cacert'', etcdCACertFile,
                      ''--cert'', etcdCertFile,
                      ''--key'', etcdKeyFile,
                      ''--endpoints'', endpoint] @ args;
          opts = \<lparr>pei_Namespace = pod_Namespace pod, pei_Name = pod_Name pod,
                  pei_Command = [''sh'', ''-c'', joinWith '' '' fullArgs] @ args\<rparr>
      in case call (EvPodExec opts) (podExec env opts) st of
           ((stdout, stderr, None), st1) \<Rightarrow> (Ok (stdout, stderr), st1)
         | ((stdout, stderr, Some err), st1) \<Rightarrow> (Err err, st1))"

definition etcdctl ::
  "'w env \<Rightarrow> string list \<Rightarrow> 'w state \<Rightarrow> (string \<times> string) result \<times> 'w state" where
  "etcdctl env args st =
     andThen (listEtcdPods env st)
       (\<lambda>pods st1.
          case pods of
            [] \<Rightarrow> (Err (Errorf ''found 0 etcd pods'' []), st1)
          | firstPod # others \<Rightarrow> etcdctlForPod env firstPod args st1)"

definition listEtcdMembers ::
  "'w env \<Rightarrow> Duration \<Rightarrow> 'w state \<Rightarrow> etcdMember list result \<times> 'w state" where
  "listEtcdMembers env timeout st =
     andThen (etcdctl env [''member list -w json''] st)
       (\<lambda>out st1.
          case jsonUnmarshalMembers env (fst out) of
            Inl err \<Rightarrow>
              (Err (Wrapf err ''unable to parse etcdctl member list json output'' []), st1)
          | Inr members \<Rightarrow> (Ok members, st1))"

definition etcdClusterHealthCheck ::
  "'w env \<Rightarrow> Duration \<Rightarrow> 'w state \<Rightarrow> unit result \<times> 'w state" where
  "etcdClusterHealthCheck env timeout st =
     andThen (listEtcdMembers env timeout st)
       (\<lambda>members st1.
          let endpoints = concat (map em_ClientURLs members)
          in andThen (etcdctl env [''endpoint health --endpoints'', joinWith '','' endpoints] st1)
               (\<lambda>out st2. (Ok (), st2)))"

definition oldNodeToEtcdMemberId ::
  "'w env \<Rightarrow> Duration \<Rightarrow> 'w state \<Rightarrow> unit result \<times> 'w state" where
  "oldNodeToEtcdMemberId env timeout st =
     andThen (listEtcdMembers env timeout st)
       (\<lambda>members st1.
          (Ok (),
           st1\<lparr>oldNodeToEtcdMember :=
                 fold (\<lambda>member m. m(em_Name member \<mapsto> hexadecimal (em_ID member)))
                   members Map.empty\<rparr>))"

definition deleteEtcdMember ::
  "'w env \<Rightarrow> Duration \<Rightarrow> string \<Rightarrow> string \<Rightarrow> 'w state \<Rightarrow> unit result \<times> 'w state" where
  "deleteEtcdMember env timeout newNode etcdMemberId st =
     andThen (listEtcdPods env st)
       (\<lambda>pods st1.
          if length pods = 0 then (Err (Errorf ''found 0 etcd pods'' []), st1)
          else
            (case find (\<lambda>p. pod_NodeName p = newNode) pods of
               None \<Rightarrow>
                 (Err (Errorf (''no new etcd pod found running on node'' @ newNode) []), st1)
             | Some pod \<Rightarrow>
                 andThen (etcdctlForPod env pod [''member'', ''remove'', etcdMemberId] st1)
                   (\<lambda>out st2. (Ok (), st2))))"

definition deleteMachine :: "'w env \<Rightarrow> Machine \<Rightarrow> 'w state \<Rightarrow> unit result \<times> 'w state" where
  "deleteMachine env machine st =
     (case call (EvDeleteMachine machine) (ctrlDeleteMachine env machine) st of
        (None, st1) \<Rightarrow> (Ok (), st1)
      | (Some err, st1) \<Rightarrow> (Err (WithStack err), st1))"

text \<open>
  \<open>applyAnnotation\<close> sends the patch of the annotated copy against the copy taken before,
  drops what \<open>Patch\<close> returns, and returns nil.
\<close>

definition applyAnnotation ::
  "'w env \<Rightarrow> base \<Rightarrow> Machine \<Rightarrow> 'w state \<Rightarrow> unit result \<times> 'w state" where
  "applyAnnotation env u m st =
     (let original = m;
          annotations = (case m_Annotations m of None \<Rightarrow> Map.empty | Some a \<Rightarrow> a);
          updated = m\<lparr>m_Annotations := Some (annotations(UpgradeIDAnnotationKey \<mapsto> upgradeID u))\<rparr>
      in case call (EvPatchMachine updated original) (ctrlPatchMachine env updated original) st of
           (dropped, st1) \<Rightarrow> (Ok (), st1))"

text \<open>
  \<open>unstructured.RemoveNestedField(content, "spec", "providerID")\<close>: the key is deleted
  when the value under \<open>spec\<close> is a map, and nothing happens otherwise.
\<close>

definition removeSpecProviderID :: "Unstructured \<Rightarrow> Unstructured" where
  "removeSpecProviderID object =
     (case u_Spec object of
        Some (JObject entries) \<Rightarrow>
          object\<lparr>u_Spec := Some (JObject (filter (\<lambda>kv. fst kv \<noteq> ''providerID'') entries))\<rparr>
      | other \<Rightarrow> object)"

text \<open>
  \<open>updateObjectReference\<close> writes through \<open>ref\<close>; \<open>Bootstrap.ConfigRef\<close> is a pointer
  that may be nil, and \<open>ref.Namespace\<close> then dereferences nil.
\<close>

definition updateObjectReference ::
  "'w env \<Rightarrow> string \<Rightarrow> ObjectReference option \<Rightarrow> 'w state
     \<Rightarrow> (ObjectReference \<times> Unstructured) result \<times> 'w state" where
  "updateObjectReference env name ref st =
     (case ref of
        None \<Rightarrow> (Panic, st)
      | Some ref0 \<Rightarrow>
          (let ref1 = (if ref_Namespace ref0 = [] then ref0\<lparr>ref_Namespace := ''default''\<rparr> else ref0)
           in case call (EvExternalGet ref1) (externalGet env ref1 (ref_Namespace ref1)) st of
                (Inl err, st1) \<Rightarrow> (Err err, st1)
              | (Inr object, st1) \<Rightarrow>
                  (Ok (ref1\<lparr>ref_ResourceVersion := [], ref_Name := name\<rparr>,
                       removeSpecProviderID
                         (object\<lparr>u_ResourceVersion := [], u_Name := name,
                                 u_OwnerReferences := []\<rparr>)),
                   st1)))"

text \<open>
  \<open>updateMachine\<close>. The call in the source gives \<open>NewMachine\<close> the name and the
  machine; the namespace it was configured with is handed over here.
\<close>

definition updateMachine ::
  "'w env \<Rightarrow> base \<Rightarrow> string \<Rightarrow> Machine \<Rightarrow> MachineCreator \<Rightarrow> 'w state
     \<Rightarrow> unit result \<times> 'w state" where
  "updateMachine env u name machine machineCreator st =
     (case spec_ProviderID (m_Spec machine) of
        None \<Rightarrow> (Panic, st)
      | Some rawProviderID \<Rightarrow>
          (case NewProviderID env rawProviderID of
             Inl err \<Rightarrow> (Err err, st)
           | Inr originalProviderID \<Rightarrow>
               (case GetNodeFromProviderID env (pid_id originalProviderID) (world st) of
                  None \<Rightarrow>
                    (Err (Errorf ''unknown previous node %q'' [pidString originalProviderID]), st)
                | Some oldNode \<Rightarrow>
                    andThen (hostnameForNode (Some oldNode), st)
                      (\<lambda>oldHostName st0.
                    andThen (NewMachine env machineCreator (clusterNamespace u) name machine st0)
                      (\<lambda>created st1.
                    andThen (hostnameForNode (snd created), st1)
                      (\<lambda>nodeHostname st1'.
                    case call EvUpdateProviderIDsToNodes (UpdateProviderIDsToNodes env) st1' of
                      (Some err, st2) \<Rightarrow> (Err err, st2)
                    | (None, st2) \<Rightarrow>
                        (let etcdMemberId =
                               (case oldNodeToEtcdMember st2 oldHostName of
                                  None \<Rightarrow> [] | Some i \<Rightarrow> i)
                         in case deleteEtcdMember env Minute nodeHostname etcdMemberId st2 of
                              (Err err, st3) \<Rightarrow>
                                (Err (Wrapf err ''unable to delete old etcd member %s''
                                        [etcdMemberId]), st3)
                            | (Panic, st3) \<Rightarrow> (Panic, st3)
                            | (Ok done, st3) \<Rightarrow>
                                andThen (deleteMachine env machine st3)
                                  (\<lambda>d st4.
                                andThen (applyAnnotation env u (fst created) st4)
                                  (\<lambda>a st5. (Ok (), st5))))))))))"

text \<open>
  One pass of the loop of \<open>updateCRDs\<close>: \<open>Ok ()\<close> goes on to the next machine
  (\<open>continue\<close>, or the end of the body), an error returns from \<open>updateCRDs\<close>. The
  object that the second \<open>updateObjectReference\<close> returns is assigned and not used.
\<close>

definition updateCRDsStep ::
  "'w env \<Rightarrow> base \<Rightarrow> MachineCreator \<Rightarrow> Machine \<Rightarrow> 'w state \<Rightarrow> unit result \<times> 'w state" where
  "updateCRDsStep env u machineCreator machine st =
     (if (case mapIndex (m_Annotations machine) UpgradeIDAnnotationKey of
            Some val \<Rightarrow> val = upgradeID u | None \<Rightarrow> False)
      then (Ok (), st)
      else if spec_ProviderID (m_Spec machine) = None then (Ok (), st)
      else
        (let nameParts = splitOn CHR ''-'' (m_Name machine)
         in if length nameParts < 2 then
              (Err (Errorf
                 ''machine name %q does not match expected format <name>-<index> or <name>-<index>-<timestamp>''
                 [m_Name machine]), st)
            else
              (case call EvNow (nowUnix env) st of
                 (now, st0) \<Rightarrow>
                   (let name = nameParts ! 0 @ ''-'' @ nameParts ! 1 @ ''-'' @ formatInt now
                    in andThen (updateObjectReference env name
                                  (Some (spec_InfrastructureRef (m_Spec machine))) st0)
                         (\<lambda>infra st1.
                            case call (EvCreateObject (snd infra))
                                   (ctrlCreateObject env (snd infra)) st1 of
                              (Some err, st2) \<Rightarrow> (Err err, st2)
                            | (None, st2) \<Rightarrow>
                                (let machine1 = machine
                                       \<lparr>m_Spec := (m_Spec machine)
                                          \<lparr>spec_InfrastructureRef := fst infra\<rparr>\<rparr>
                                 in andThen (updateObjectReference env name
                                               (spec_BootstrapConfigRef (m_Spec machine1)) st2)
                                      (\<lambda>bootstrap st3.
                                         (let machine2 = machine1
                                                \<lparr>m_Spec := (m_Spec machine1)
                                                   \<lparr>spec_BootstrapConfigRef :=
                                                      Some (fst bootstrap)\<rparr>\<rparr>
                                          in updateMachine env u name machine2 machineCreator
                                               st3))))))))"

fun updateCRDsLoop ::
  "'w env \<Rightarrow> base \<Rightarrow> MachineCreator \<Rightarrow> Machine list \<Rightarrow> 'w state \<Rightarrow> unit result \<times> 'w state" where
  "updateCRDsLoop env u machineCreator [] st = (Ok (), st)"
| "updateCRDsLoop env u machineCreator (machine # rest) st =
     (case updateCRDsStep env u machineCreator machine st of
        (Ok next, st1) \<Rightarrow> updateCRDsLoop env u machineCreator rest st1
      | (Err err, st1) \<Rightarrow> (Err err, st1)
      | (Panic, st1) \<Rightarrow> (Panic, st1))"

text \<open>
  The creator \<open>updateCRDs\<close> builds: the defaults of \<open>NewMachineCreator\<close> with the
  machine options; its other options hand over clients, the namespace and the logger.
\<close>

definition updateCRDs :: "'w env \<Rightarrow> base \<Rightarrow> Machine list \<Rightarrow> 'w state \<Rightarrow> unit result \<times> 'w state" where
  "updateCRDs env u machines st =
     andThen (oldNodeToEtcdMemberId env Minute st)
       (\<lambda>saved st1.
          let mo = (imageID u, imageField u, desiredVersion st1);
              machineCreator = NewMachineCreator [WithMachineOptions mo]
          in updateCRDsLoop env u machineCreator machines st1)"

text \<open>
  \<open>updateKubeadmKubernetesVersion\<close> over the YAML codec. Decoding the JSON value null
  leaves the map nil, and storing into a nil map (the decoded document, or \<open>cm.Data\<close>)
  panics. The function is stated for any record that extends \<open>ConfigMap\<close>, so that it
  says what happens to every other field of the object.
\<close>

definition updateKubeadmKubernetesVersion ::
  "'w env \<Rightarrow> 'a ConfigMap_scheme \<Rightarrow> string \<Rightarrow> 'a ConfigMap_scheme result" where
  "updateKubeadmKubernetesVersion env original version =
     (let cm = original
      in case yamlUnmarshal env (case mapIndex (cm_Data cm) ''ClusterConfiguration'' of
                                  None \<Rightarrow> [] | Some text \<Rightarrow> text) of
           Inl err \<Rightarrow> Err (Wrapf err ''error decoding kubeadm configmap ClusterConfiguration'' [])
         | Inr None \<Rightarrow> Panic
         | Inr (Some clusterConfig) \<Rightarrow>
             (case yamlMarshal env (clusterConfig(''kubernetesVersion'' \<mapsto> JString version)) of
                Inl err \<Rightarrow>
                  Err (Wrapf err ''error encoding kubeadm configmap ClusterConfiguration'' [])
              | Inr updated \<Rightarrow>
                  (case cm_Data cm of
                     None \<Rightarrow> Panic
                   | Some d \<Rightarrow>
                       Ok (cm\<lparr>cm_Data := Some (d(''ClusterConfiguration'' \<mapsto> updated))\<rparr>))))"

definition updateAndUploadKubeadmKubernetesVersion ::
  "'w env \<Rightarrow> 'w state \<Rightarrow> unit result \<times> 'w state" where
  "updateAndUploadKubeadmKubernetesVersion env st =
     (case call (EvGetConfigMap ''kubeadm-config'') (getConfigMap env ''kubeadm-config'') st of
        (Inl err, st1) \<Rightarrow>
          (Err (Wrapf err ''error getting kubeadm configmap from target cluster'' []), st1)
      | (Inr original, st1) \<Rightarrow>
          andThen (updateKubeadmKubernetesVersion env original
                     (''v'' @ versionString (desiredVersion st1)), st1)
            (\<lambda>updated st2.
               case call (EvUpdateConfigMap updated) (updateConfigMap env updated) st2 of
                 (Some err, st3) \<Rightarrow> (Err (Wrapf err ''error updating kubeadm configmap'' []), st3)
               | (None, st3) \<Rightarrow> (Ok (), st3)))"

text \<open>\<open>ControlPlaneUpgrader.Upgrade\<close>.\<close>

definition Upgrade :: "'w env \<Rightarrow> base \<Rightarrow> 'w state \<Rightarrow> unit result \<times> 'w state" where
  "Upgrade env u st =
     andThen (listMachines env u st)
       (\<lambda>machines st1.
          if length machines = 0 then (Err (Errorf ''Found 0 control plane machines'' []), st1)
          else
            (case minMaxControlPlaneVersions env machines of
               Panic \<Rightarrow> (Panic, st1)
             | Err err \<Rightarrow>
                 (Err (Wrapf err ''error determining current control plane versions'' []), st1)
             | Ok mm \<Rightarrow>
                 (let st2 = (if EQ unsetVersion (userVersion u)
                             then st1\<lparr>desiredVersion := snd mm\<rparr> else st1)
                  in andThen
                       (if isMinorVersionUpgrade (fst mm) (desiredVersion st2) then
                          andThen (updateKubeletConfigMapIfNeeded env (desiredVersion st2) st2)
                            (\<lambda>c st3. updateKubeletRbacIfNeeded env (desiredVersion st3) st3)
                        else (Ok (), st2))
                       (\<lambda>k st4.
                    andThen (etcdClusterHealthCheck env (Minute * 1) st4)
                       (\<lambda>h st5.
                    case call EvUpdateProviderIDsToNodes (UpdateProviderIDsToNodes env) st5 of
                      (Some err, st6) \<Rightarrow> (Err err, st6)
                    | (None, st6) \<Rightarrow>
                        andThen (updateAndUploadKubeadmKubernetesVersion env st6)
                          (\<lambda>w st7. updateCRDs env u machines st7))))))"

section \<open>The worker upgrader (machine\_deployment.go)\<close>

definition listMachineDeployments ::
  "'w env \<Rightarrow> base \<Rightarrow> 'w state \<Rightarrow> MachineDeployment list result \<times> 'w state" where
  "listMachineDeployments env u st =
     (case call EvListMachineDeployments
             (ctrlListMachineDeployments env (clusterName u) (clusterNamespace u)) st of
        (Inl err, st1) \<Rightarrow> (Err (Wrapf err ''error listing machines'' []), st1)
      | (Inr deployments, st1) \<Rightarrow> (Ok deployments, st1))"

definition updateMachineDeployment ::
  "'w env \<Rightarrow> base \<Rightarrow> MachineDeployment \<Rightarrow> 'w state \<Rightarrow> unit result \<times> 'w state" where
  "updateMachineDeployment env u machineDeployment st =
     (let original = machineDeployment;
          annotations = (case md_TemplateAnnotations machineDeployment of
                           None \<Rightarrow> Map.empty | Some a \<Rightarrow> a);
          md1 = machineDeployment
                  \<lparr>md_TemplateSpec := (md_TemplateSpec machineDeployment)
                      \<lparr>spec_Version := Some (versionString (desiredVersion st))\<rparr>,
                   md_TemplateAnnotations :=
                      Some (annotations(UpgradeIDAnnotationKey \<mapsto> upgradeID u))\<rparr>
      in case (if imageField u \<noteq> [] \<and> imageID u \<noteq> []
               then updateMachineSpecImage env (md_TemplateSpec md1) (imageField u) (imageID u)
               else Inr (md_TemplateSpec md1)) of
           Inl err \<Rightarrow> (Err err, st)
         | Inr spec1 \<Rightarrow>
             (let updated = md1\<lparr>md_TemplateSpec := spec1\<rparr>
              in case call (EvPatchMachineDeployment updated original)
                        (ctrlPatchMachineDeployment env updated original) st of
                   (Some err, st1) \<Rightarrow>
                     (Err (Wrapf err ''error patching machinedeployment %s''
                             [md_Name machineDeployment]), st1)
                 | (None, st1) \<Rightarrow> (Ok (), st1)))"

definition upgradeMachineDeploymentsStep ::
  "'w env \<Rightarrow> base \<Rightarrow> MachineDeployment \<Rightarrow> 'w state \<Rightarrow> unit result \<times> 'w state" where
  "upgradeMachineDeploymentsStep env u machineDeployment st =
     (if (case mapIndex (md_TemplateAnnotations machineDeployment) UpgradeIDAnnotationKey of
            Some val \<Rightarrow> val = upgradeID u | None \<Rightarrow> False)
      then (Ok (), st)
      else updateMachineDeployment env u machineDeployment st)"

fun upgradeMachineDeployments ::
  "'w env \<Rightarrow> base \<Rightarrow> MachineDeployment list \<Rightarrow> 'w state \<Rightarrow> unit result \<times> 'w state" where
  "upgradeMachineDeployments env u [] st = (Ok (), st)"
| "upgradeMachineDeployments env u (machineDeployment # rest) st =
     (case upgradeMachineDeploymentsStep env u machineDeployment st of
        (Ok next, st1) \<Rightarrow> upgradeMachineDeployments env u rest st1
      | (Err err, st1) \<Rightarrow> (Err err, st1)
      | (Panic, st1) \<Rightarrow> (Panic, st1))"

definition MachineDeploymentUpgrade :: "'w env \<Rightarrow> base \<Rightarrow> 'w state \<Rightarrow> unit result \<times> 'w state" where
  "MachineDeploymentUpgrade env u st =
     andThen (listMachineDeployments env u st)
       (\<lambda>machineDeployments st1.
          if length machineDeployments = 0 then
            (Err (Errorf ''Found 0 machine deployments'' []), st1)
          else upgradeMachineDeployments env u machineDeployments st1)"

section \<open>Properties\<close>

text \<open>
  C6. For all versions a and b, isMinorVersionUpgrade a b is true exactly when both have
  the same major version and the minor version of a is strictly below that of b; so it is
  false whenever the major versions differ and whenever the minor version does not grow.
\<close>

theorem isMinorVersionUpgrade_iff:
  "isMinorVersionUpgrade a b = (Major a = Major b \<and> Minor a < Minor b)
   \<and> (isMinorVersionUpgrade a b \<and> Major a \<noteq> Major b) = False
   \<and> (isMinorVersionUpgrade a b \<and> Minor b \<le> Minor a) = False"
  by (auto simp: isMinorVersionUpgrade_def)

end
